theory Spec2Isabelle
  imports Complex_Main
begin

section \<open>Number model and Python primitives\<close>

text \<open>
  The ray caster of \<^verbatim>\<open>raycast_puzzle.py\<close> computes with Python floats and Python
  integers. Floats are modelled as reals and their arithmetic as exact (no rounding of a
  result that a float can hold, no NaN or infinite inputs), Python's unbounded integers as
  \<open>int\<close>. Exceptions are values of the type \<open>error\<close>; a computation that can raise
  returns \<open>error + 'a\<close> with \<open>Inl\<close> for the exception.
\<close>

datatype error = UnboundLocalError | IndexError | ZeroDivisionError | OverflowError

text \<open>The range of a Python float (an IEEE double, rounded to nearest): a result of
  magnitude \<open>2\<^sup>1\<^sup>0\<^sup>2\<^sup>4 - 2\<^sup>9\<^sup>7\<^sup>0\<close> or more rounds to infinity, and one of magnitude
  \<open>2\<^sup>-\<^sup>1\<^sup>0\<^sup>7\<^sup>5\<close> or less rounds to zero.\<close>

definition rounds_to_inf :: "real \<Rightarrow> bool" where
  "rounds_to_inf r \<longleftrightarrow> \<bar>r\<bar> \<ge> 2 ^ 1024 - 2 ^ 970"

definition rounds_to_zero :: "real \<Rightarrow> bool" where
  "rounds_to_zero r \<longleftrightarrow> \<bar>r\<bar> \<le> 1 / 2 ^ 1075"


text \<open>\<^verbatim>\<open>x ** 2\<close> on a float: a result too large raises \<^verbatim>\<open>OverflowError\<close>, one too small
  is \<^verbatim>\<open>0.0\<close>.\<close>

definition py_pow2 :: "real \<Rightarrow> error + real" where
  "py_pow2 x =
     (if rounds_to_inf (x\<^sup>2) then Inl OverflowError
      else if rounds_to_zero (x\<^sup>2) then Inr 0
      else Inr (x\<^sup>2))"

text \<open>\<^verbatim>\<open>a / b\<close> on floats: a zero divisor raises \<^verbatim>\<open>ZeroDivisionError\<close>, a quotient too
  small is \<^verbatim>\<open>0.0\<close>. (A quotient too large would be infinity, which the model does not
  have; the quotients of \<^verbatim>\<open>normalize\<close> have magnitude at most 1.)\<close>

definition py_truediv :: "real \<Rightarrow> real \<Rightarrow> error + real" where
  "py_truediv a b =
     (if b = 0 then Inl ZeroDivisionError
      else if rounds_to_zero (a / b) then Inr 0
      else Inr (a / b))"

text \<open>\<^verbatim>\<open>xs[i]\<close> on a Python list: negative indices count from the end, anything
  else out of range raises \<^verbatim>\<open>IndexError\<close>.\<close>

definition py_index :: "'a list \<Rightarrow> int \<Rightarrow> error + 'a" where
  "py_index xs i =
     (if 0 \<le> i \<and> i < int (length xs) then Inr (xs ! nat i)
      else if - int (length xs) \<le> i \<and> i < 0 then Inr (xs ! nat (int (length xs) + i))
      else Inl IndexError)"

text \<open>\<^verbatim>\<open>int(f)\<close> on a float truncates towards zero.\<close>

definition py_int :: "real \<Rightarrow> int" where
  "py_int r = (if 0 \<le> r then \<lfloor>r\<rfloor> else \<lceil>r\<rceil>)"

section \<open>Vector2\<close>

datatype Vector2 = Vector2 (vx: real) (vy: real)

definition add :: "Vector2 \<Rightarrow> Vector2 \<Rightarrow> Vector2" where
  "add a b = Vector2 (vx a + vx b) (vy a + vy b)"

definition sub :: "Vector2 \<Rightarrow> Vector2 \<Rightarrow> Vector2" where
  "sub a b = Vector2 (vx a - vx b) (vy a - vy b)"

definition mul :: "Vector2 \<Rightarrow> real \<Rightarrow> Vector2" where
  "mul a scalar = Vector2 (vx a * scalar) (vy a * scalar)"

definition dot :: "Vector2 \<Rightarrow> Vector2 \<Rightarrow> real" where
  "dot a b = vx a * vx b + vy a * vy b"

text \<open>\<^verbatim>\<open>normalize\<close>: the two squares (either may raise), their sum, its square root, the
  test \<^verbatim>\<open>length > 0\<close>, and the two divisions. A sum too large for a float is infinity
  without an exception; its square root is infinity, the test \<^verbatim>\<open>length > 0\<close> holds, and
  each component divided by infinity is zero.\<close>

definition normalize :: "Vector2 \<Rightarrow> error + Vector2" where
  "normalize a =
     (case py_pow2 (vx a) of
        Inl e \<Rightarrow> Inl e
      | Inr xx \<Rightarrow>
          (case py_pow2 (vy a) of
             Inl e \<Rightarrow> Inl e
           | Inr yy \<Rightarrow>
               if rounds_to_inf (xx + yy) then Inr (Vector2 0 0)
               else
                 (let len = sqrt (xx + yy)
                  in if len > 0 then
                       (case py_truediv (vx a) len of
                          Inl e \<Rightarrow> Inl e
                        | Inr nx \<Rightarrow>
                            (case py_truediv (vy a) len of
                               Inl e \<Rightarrow> Inl e
                             | Inr ny \<Rightarrow> Inr (Vector2 nx ny)))
                     else Inr (Vector2 0 0))))"

section \<open>LevelMap\<close>

record mirror =
  m_x :: int
  m_y :: int
  orientation :: string

record LevelMap =
  grid :: "int list list"
  width :: int
  height :: int
  mirrors :: "mirror list"

text \<open>The constructor reads \<^verbatim>\<open>len(grid[0])\<close>, which raises on an empty grid.\<close>

definition LevelMap_init :: "int list list \<Rightarrow> error + LevelMap" where
  "LevelMap_init g =
     (case py_index g 0 of
        Inl e \<Rightarrow> Inl e
      | Inr row0 \<Rightarrow>
          Inr \<lparr>grid = g, width = int (length row0), height = int (length g), mirrors = []\<rparr>)"

definition add_mirror :: "LevelMap \<Rightarrow> int \<Rightarrow> int \<Rightarrow> string \<Rightarrow> LevelMap" where
  "add_mirror lm x y orient =
     lm\<lparr>mirrors := mirrors lm @ [\<lparr>m_x = x, m_y = y, orientation = orient\<rparr>]\<rparr>"

definition get_tile :: "LevelMap \<Rightarrow> int \<Rightarrow> int \<Rightarrow> error + int" where
  "get_tile lm x y =
     (if 0 \<le> x \<and> x < width lm \<and> 0 \<le> y \<and> y < height lm then
        (case py_index (grid lm) y of
           Inl e \<Rightarrow> Inl e
         | Inr row \<Rightarrow> py_index row x)
      else Inr 1)"

text \<open>The data-model invariant of the grid: \<^verbatim>\<open>height\<close> rows, each of \<^verbatim>\<open>width\<close> cells.\<close>

definition rectangular :: "LevelMap \<Rightarrow> bool" where
  "rectangular lm \<longleftrightarrow>
     height lm = int (length (grid lm)) \<and>
     list_all (\<lambda>row. int (length row) = width lm) (grid lm)"

section \<open>Ray: the single-segment caster\<close>

text \<open>The tuple \<^verbatim>\<open>(distance, wall_type, hit_mirror, mirror_data)\<close> that
  \<^verbatim>\<open>_cast_single\<close> returns.\<close>

record segment =
  seg_distance :: real
  seg_wall_type :: int
  seg_hit_mirror :: bool
  seg_mirror_data :: "mirror option"

text \<open>The first two statements of \<^verbatim>\<open>_cast_single\<close>. They assign to the fields of the
  caller's vector object, so the caller sees the changed direction afterwards.\<close>

definition nudge :: "Vector2 \<Rightarrow> Vector2" where
  "nudge direction =
     Vector2 (if \<bar>vx direction\<bar> < 0.0001 then 0.0001 else vx direction)
             (if \<bar>vy direction\<bar> < 0.0001 then 0.0001 else vy direction)"

text \<open>The test of the cell \<^verbatim>\<open>(check_x, check_y)\<close>, written twice in the source (once per
  axis): \<open>Some\<close> segment when the loop returns there, \<open>None\<close> when the cell is empty and
  the loop goes on. The first matching entry of the mirror list wins.\<close>

definition probe :: "LevelMap \<Rightarrow> int \<Rightarrow> int \<Rightarrow> real \<Rightarrow> error + segment option" where
  "probe lm check_x check_y d =
     (if check_x < 0 \<or> check_x \<ge> width lm \<or> check_y < 0 \<or> check_y \<ge> height lm then
        Inr (Some \<lparr>seg_distance = d, seg_wall_type = 1, seg_hit_mirror = False,
                   seg_mirror_data = None\<rparr>)
      else
        (case py_index (grid lm) check_y of
           Inl e \<Rightarrow> Inl e
         | Inr row \<Rightarrow>
             (case py_index row check_x of
                Inl e \<Rightarrow> Inl e
              | Inr tile \<Rightarrow>
                  if tile \<noteq> 0 then
                    (case find (\<lambda>m. m_x m = check_x \<and> m_y m = check_y) (mirrors lm) of
                       Some m \<Rightarrow>
                         Inr (Some \<lparr>seg_distance = d, seg_wall_type = tile,
                                    seg_hit_mirror = True, seg_mirror_data = Some m\<rparr>)
                     | None \<Rightarrow>
                         Inr (Some \<lparr>seg_distance = d, seg_wall_type = tile,
                                    seg_hit_mirror = False, seg_mirror_data = None\<rparr>))
                  else Inr None)))"

text \<open>The variables the DDA loop changes. \<^verbatim>\<open>hit_x\<close> and \<^verbatim>\<open>hit_y\<close> are written but never
  read, and neither are \<^verbatim>\<open>step_x\<close> and \<^verbatim>\<open>step_y\<close>; they are left out.
  \<^verbatim>\<open>h_dx\<close> and \<^verbatim>\<open>v_dy\<close> are fixed by the sign tests on
  \<^verbatim>\<open>ray_cos\<close> and \<^verbatim>\<open>ray_sin\<close> before the loop.\<close>

record dda_state =
  h_x :: int
  v_y :: int
  distance :: real

datatype dda_step_result = Return segment | Continue dda_state

definition h_dx :: "real \<Rightarrow> int" where
  "h_dx ray_cos = (if ray_cos > 0 then 1 else -1)"

definition v_dy :: "real \<Rightarrow> int" where
  "v_dy ray_sin = (if ray_sin > 0 then 1 else -1)"

text \<open>The branch \<^verbatim>\<open>if abs(h_dist) < abs(v_dist)\<close>: the crossing of the grid line
  \<^verbatim>\<open>x = h_x\<close>.\<close>

definition h_branch ::
  "LevelMap \<Rightarrow> Vector2 \<Rightarrow> real \<Rightarrow> real \<Rightarrow> dda_state \<Rightarrow> real \<Rightarrow> error + dda_step_result" where
  "h_branch lm origin ray_cos ray_sin st h_dist =
     (let h_y = vy origin + h_dist * ray_sin;
          d = \<bar>h_dist\<bar>;
          check_x = py_int (real_of_int (h_x st) - (if ray_cos < 0 then 0.5 else - 0.5));
          check_y = py_int h_y
      in case probe lm check_x check_y d of
           Inl e \<Rightarrow> Inl e
         | Inr (Some seg) \<Rightarrow> Inr (Return seg)
         | Inr None \<Rightarrow>
             Inr (Continue \<lparr>h_x = h_x st + h_dx ray_cos, v_y = v_y st, distance = d\<rparr>))"

text \<open>The \<^verbatim>\<open>else\<close> branch: the crossing of the grid line \<^verbatim>\<open>y = v_y\<close>.\<close>

definition v_branch ::
  "LevelMap \<Rightarrow> Vector2 \<Rightarrow> real \<Rightarrow> real \<Rightarrow> dda_state \<Rightarrow> real \<Rightarrow> error + dda_step_result" where
  "v_branch lm origin ray_cos ray_sin st v_dist =
     (let v_x = vx origin + v_dist * ray_cos;
          d = \<bar>v_dist\<bar>;
          check_x = py_int v_x;
          check_y = py_int (real_of_int (v_y st) - (if ray_sin < 0 then 0.5 else - 0.5))
      in case probe lm check_x check_y d of
           Inl e \<Rightarrow> Inl e
         | Inr (Some seg) \<Rightarrow> Inr (Return seg)
         | Inr None \<Rightarrow>
             Inr (Continue \<lparr>h_x = h_x st, v_y = v_y st + v_dy ray_sin, distance = d\<rparr>))"

text \<open>One run of the loop body. Both divisions are made before the comparison; a float
  division by zero raises.\<close>

definition dda_step ::
  "LevelMap \<Rightarrow> Vector2 \<Rightarrow> real \<Rightarrow> real \<Rightarrow> dda_state \<Rightarrow> error + dda_step_result" where
  "dda_step lm origin ray_cos ray_sin st =
     (if ray_cos = 0 \<or> ray_sin = 0 then Inl ZeroDivisionError
      else
        (let h_dist = (real_of_int (h_x st) - vx origin) / ray_cos;
             v_dist = (real_of_int (v_y st) - vy origin) / ray_sin
         in if \<bar>h_dist\<bar> < \<bar>v_dist\<bar> then h_branch lm origin ray_cos ray_sin st h_dist
            else v_branch lm origin ray_cos ray_sin st v_dist))"

text \<open>What bounds the loop: the grid lines still ahead of the ray on each axis.\<close>

definition dda_measure :: "LevelMap \<Rightarrow> real \<Rightarrow> real \<Rightarrow> dda_state \<Rightarrow> nat" where
  "dda_measure lm ray_cos ray_sin st =
     (if ray_cos > 0 then nat (width lm - h_x st) else nat (h_x st + 1)) +
     (if ray_sin > 0 then nat (height lm - v_y st) else nat (v_y st + 1))"

lemma probe_None_bounds:
  assumes "probe lm cx cy d = Inr None"
  shows "0 \<le> cx \<and> cx < width lm \<and> 0 \<le> cy \<and> cy < height lm"
  using assms by (auto simp: probe_def split: if_splits)

lemma py_int_plus_half_ge: "k \<le> py_int (real_of_int k + 0.5)"
  unfolding py_int_def by (simp; linarith)

lemma py_int_minus_half_nonneg: "0 \<le> py_int (real_of_int k - 0.5) \<Longrightarrow> 0 \<le> k"
  unfolding py_int_def by (simp split: if_splits; linarith)

lemma h_branch_Continue:
  assumes "h_branch lm origin ray_cos ray_sin st hdist = Inr (Continue st')"
  shows "st' = \<lparr>h_x = h_x st + h_dx ray_cos, v_y = v_y st, distance = \<bar>hdist\<bar>\<rparr> \<and>
         (if ray_cos < 0 then 0 \<le> h_x st else h_x st < width lm)"
proof -
  let ?cx = "py_int (real_of_int (h_x st) - (if ray_cos < 0 then 0.5 else - 0.5))"
  let ?cy = "py_int (vy origin + hdist * ray_sin)"
  from assms have p: "probe lm ?cx ?cy \<bar>hdist\<bar> = Inr None"
    and s: "st' = \<lparr>h_x = h_x st + h_dx ray_cos, v_y = v_y st, distance = \<bar>hdist\<bar>\<rparr>"
    by (auto simp: h_branch_def Let_def split: sum.splits option.splits)
  from probe_None_bounds [OF p] have b: "0 \<le> ?cx" "?cx < width lm" by simp_all
  show ?thesis
  proof (cases "ray_cos < 0")
    case True
    with b have "0 \<le> py_int (real_of_int (h_x st) - 0.5)" by simp
    then have "0 \<le> h_x st" by (rule py_int_minus_half_nonneg)
    with s True show ?thesis by simp
  next
    case False
    with b have "py_int (real_of_int (h_x st) + 0.5) < width lm" by simp
    with py_int_plus_half_ge [of "h_x st"] have "h_x st < width lm" by linarith
    with s False show ?thesis by simp
  qed
qed

lemma v_branch_Continue:
  assumes "v_branch lm origin ray_cos ray_sin st vdist = Inr (Continue st')"
  shows "st' = \<lparr>h_x = h_x st, v_y = v_y st + v_dy ray_sin, distance = \<bar>vdist\<bar>\<rparr> \<and>
         (if ray_sin < 0 then 0 \<le> v_y st else v_y st < height lm)"
proof -
  let ?cx = "py_int (vx origin + vdist * ray_cos)"
  let ?cy = "py_int (real_of_int (v_y st) - (if ray_sin < 0 then 0.5 else - 0.5))"
  from assms have p: "probe lm ?cx ?cy \<bar>vdist\<bar> = Inr None"
    and s: "st' = \<lparr>h_x = h_x st, v_y = v_y st + v_dy ray_sin, distance = \<bar>vdist\<bar>\<rparr>"
    by (auto simp: v_branch_def Let_def split: sum.splits option.splits)
  from probe_None_bounds [OF p] have b: "0 \<le> ?cy" "?cy < height lm" by simp_all
  show ?thesis
  proof (cases "ray_sin < 0")
    case True
    with b have "0 \<le> py_int (real_of_int (v_y st) - 0.5)" by simp
    then have "0 \<le> v_y st" by (rule py_int_minus_half_nonneg)
    with s True show ?thesis by simp
  next
    case False
    with b have "py_int (real_of_int (v_y st) + 0.5) < height lm" by simp
    with py_int_plus_half_ge [of "v_y st"] have "v_y st < height lm" by linarith
    with s False show ?thesis by simp
  qed
qed

lemma dda_step_decreases:
  assumes "dda_step lm origin ray_cos ray_sin st = Inr (Continue st')"
  shows "dda_measure lm ray_cos ray_sin st' < dda_measure lm ray_cos ray_sin st"
proof -
  from assms have nz: "ray_cos \<noteq> 0" "ray_sin \<noteq> 0"
    by (auto simp: dda_step_def split: if_splits)
  let ?hdist = "(real_of_int (h_x st) - vx origin) / ray_cos"
  let ?vdist = "(real_of_int (v_y st) - vy origin) / ray_sin"
  show ?thesis
  proof (cases "\<bar>?hdist\<bar> < \<bar>?vdist\<bar>")
    case True
    with assms nz have "h_branch lm origin ray_cos ray_sin st ?hdist = Inr (Continue st')"
      by (simp add: dda_step_def Let_def)
    from h_branch_Continue [OF this] nz show ?thesis
      by (auto simp: dda_measure_def h_dx_def split: if_splits)
  next
    case False
    with assms nz have "v_branch lm origin ray_cos ray_sin st ?vdist = Inr (Continue st')"
      by (simp add: dda_step_def Let_def)
    from v_branch_Continue [OF this] nz show ?thesis
      by (auto simp: dda_measure_def v_dy_def split: if_splits)
  qed
qed

text \<open>The loop \<^verbatim>\<open>while distance < max_distance\<close> with the \<^verbatim>\<open>return\<close> after it.\<close>

function dda_loop ::
  "LevelMap \<Rightarrow> Vector2 \<Rightarrow> real \<Rightarrow> real \<Rightarrow> real \<Rightarrow> dda_state \<Rightarrow> error + segment" where
  "dda_loop lm origin ray_cos ray_sin max_distance st =
     (if distance st < max_distance then
        (case dda_step lm origin ray_cos ray_sin st of
           Inl e \<Rightarrow> Inl e
         | Inr (Return seg) \<Rightarrow> Inr seg
         | Inr (Continue st') \<Rightarrow> dda_loop lm origin ray_cos ray_sin max_distance st')
      else Inr \<lparr>seg_distance = max_distance, seg_wall_type = 0, seg_hit_mirror = False,
                seg_mirror_data = None\<rparr>)"
  by pat_completeness auto
termination
  by (relation "measure (\<lambda>(lm, origin, ray_cos, ray_sin, max_distance, st).
                  dda_measure lm ray_cos ray_sin st)")
     (auto dest: dda_step_decreases)

declare dda_loop.simps [simp del]

text \<open>\<^verbatim>\<open>_cast_single\<close>: the changed direction (seen by the caller through the shared
  object) and the segment.\<close>

definition cast_single ::
  "LevelMap \<Rightarrow> Vector2 \<Rightarrow> Vector2 \<Rightarrow> real \<Rightarrow> Vector2 \<times> (error + segment)" where
  "cast_single lm origin direction max_distance =
     (let direction' = nudge direction;
          ray_cos = vx direction';
          ray_sin = vy direction';
          h_x0 = (if ray_cos > 0 then \<lfloor>vx origin\<rfloor> + 1 else \<lceil>vx origin\<rceil> - 1);
          v_y0 = (if ray_sin > 0 then \<lfloor>vy origin\<rfloor> + 1 else \<lceil>vy origin\<rceil> - 1)
      in (direction',
          dda_loop lm origin ray_cos ray_sin max_distance
            \<lparr>h_x = h_x0, v_y = v_y0, distance = 0\<rparr>))"

section \<open>Ray: the reflection controller\<close>

record Ray =
  origin :: Vector2
  direction :: Vector2
  bounces :: int
  max_bounces :: int

text \<open>The constructor normalises the direction, and raises when that raises.\<close>

definition Ray_init :: "Vector2 \<Rightarrow> Vector2 \<Rightarrow> error + Ray" where
  "Ray_init orig dir =
     (case normalize dir of
        Inl e \<Rightarrow> Inl e
      | Inr d \<Rightarrow> Inr \<lparr>origin = orig, direction = d, bounces = 0, max_bounces = 3\<rparr>)"

text \<open>The tuple \<^verbatim>\<open>(total_distance, wall_type, False)\<close> that \<^verbatim>\<open>cast\<close> returns.\<close>

record cast_result =
  res_distance :: real
  res_wall_type :: int
  res_hit_mirror :: bool

text \<open>The variables of \<^verbatim>\<open>cast\<close> that live across iterations. \<^verbatim>\<open>wall_type\<close> is unbound
  until the first segment has been unpacked; \<open>self_bounces\<close> is \<^verbatim>\<open>self.bounces\<close>.\<close>

record cast_state =
  current_pos :: Vector2
  current_dir :: Vector2
  total_distance :: real
  self_bounces :: int
  wall_type :: "int option"

datatype cast_step_result = Returned cast_result | Next cast_state

text \<open>The assignment to \<^verbatim>\<open>current_dir.y\<close> or \<^verbatim>\<open>current_dir.x\<close>: every orientation other
  than the string \<^verbatim>\<open>'horizontal'\<close> takes the \<^verbatim>\<open>else\<close> branch.\<close>

definition reflect :: "Vector2 \<Rightarrow> mirror \<Rightarrow> Vector2" where
  "reflect dir m =
     (if orientation m = ''horizontal'' then Vector2 (vx dir) (- vy dir)
      else Vector2 (- vx dir) (vy dir))"

text \<open>One run of the body of the loop in \<^verbatim>\<open>cast\<close>, together with the segment it cast.
  \<^verbatim>\<open>current_dir\<close> is the object handed to \<^verbatim>\<open>_cast_single\<close>, so the body goes on
  with the direction as \<^verbatim>\<open>_cast_single\<close> left it. A mirror entry is a non-empty dict,
  hence true in \<^verbatim>\<open>hit_mirror and mirror_data\<close>.\<close>

definition cast_body ::
  "LevelMap \<Rightarrow> real \<Rightarrow> cast_state \<Rightarrow> error + segment \<times> cast_step_result" where
  "cast_body lm max_distance s =
     (case cast_single lm (current_pos s) (current_dir s) (max_distance - total_distance s) of
        (dir', Inl e) \<Rightarrow> Inl e
      | (dir', Inr seg) \<Rightarrow>
          (let total = total_distance s + seg_distance seg
           in case (seg_hit_mirror seg, seg_mirror_data seg) of
                (True, Some m) \<Rightarrow>
                  Inr (seg, Next
                    \<lparr>current_pos =
                       Vector2 (vx (current_pos s) + vx dir' * seg_distance seg)
                               (vy (current_pos s) + vy dir' * seg_distance seg),
                     current_dir = reflect dir' m,
                     total_distance = total,
                     self_bounces = self_bounces s + 1,
                     wall_type = Some (seg_wall_type seg)\<rparr>)
              | _ \<Rightarrow>
                  Inr (seg, Returned
                    \<lparr>res_distance = total, res_wall_type = seg_wall_type seg,
                     res_hit_mirror = False\<rparr>)))"

text \<open>What a call of \<^verbatim>\<open>cast\<close> leaves behind: the value returned or the exception raised,
  \<^verbatim>\<open>self.bounces\<close> afterwards, and (for the claims that count segments) the segments
  that \<^verbatim>\<open>_cast_single\<close> returned, in order.\<close>

record cast_run =
  casts :: "segment list"
  final_bounces :: int
  returned :: "error + cast_result"

lemma cast_body_Next_bounces:
  "cast_body lm max_distance s = Inr (seg, Next s') \<Longrightarrow> self_bounces s' = self_bounces s + 1"
  by (auto simp: cast_body_def Let_def split: prod.splits sum.splits bool.splits option.splits)

text \<open>The loop \<^verbatim>\<open>while self.bounces < self.max_bounces and total_distance < max_distance\<close>
  with the \<^verbatim>\<open>return\<close> after it, which reads \<^verbatim>\<open>wall_type\<close>.\<close>

function cast_loop :: "LevelMap \<Rightarrow> real \<Rightarrow> int \<Rightarrow> cast_state \<Rightarrow> cast_run" where
  "cast_loop lm max_distance max_b s =
     (if self_bounces s < max_b \<and> total_distance s < max_distance then
        (case cast_body lm max_distance s of
           Inl e \<Rightarrow> \<lparr>casts = [], final_bounces = self_bounces s, returned = Inl e\<rparr>
         | Inr (seg, Returned r) \<Rightarrow>
             \<lparr>casts = [seg], final_bounces = self_bounces s, returned = Inr r\<rparr>
         | Inr (seg, Next s') \<Rightarrow>
             (let run = cast_loop lm max_distance max_b s'
              in run\<lparr>casts := seg # casts run\<rparr>))
      else
        \<lparr>casts = [], final_bounces = self_bounces s,
         returned =
           (case wall_type s of
              None \<Rightarrow> Inl UnboundLocalError
            | Some w \<Rightarrow>
                Inr \<lparr>res_distance = total_distance s, res_wall_type = w,
                     res_hit_mirror = False\<rparr>)\<rparr>)"
  by pat_completeness auto
termination
  by (relation "measure (\<lambda>(lm, max_distance, max_b, s). nat (max_b - self_bounces s))")
     (auto dest: cast_body_Next_bounces)

declare cast_loop.simps [simp del]

text \<open>The state in which \<^verbatim>\<open>cast\<close> enters its loop: copies of the ray's origin and
  direction, no distance covered, \<^verbatim>\<open>wall_type\<close> not yet bound.\<close>

definition cast_start :: "Ray \<Rightarrow> cast_state" where
  "cast_start ray =
     \<lparr>current_pos = Vector2 (vx (origin ray)) (vy (origin ray)),
      current_dir = Vector2 (vx (direction ray)) (vy (direction ray)),
      total_distance = 0,
      self_bounces = bounces ray,
      wall_type = None\<rparr>"

definition cast :: "Ray \<Rightarrow> LevelMap \<Rightarrow> real \<Rightarrow> cast_run" where
  "cast ray lm max_distance = cast_loop lm max_distance (max_bounces ray) (cast_start ray)"

text \<open>The states in which a run of the loop of \<^verbatim>\<open>cast\<close> tests its condition: the
  starting state, and each state a completed iteration hands to the next test.\<close>

inductive visits :: "LevelMap \<Rightarrow> real \<Rightarrow> int \<Rightarrow> cast_state \<Rightarrow> cast_state \<Rightarrow> bool" where
  visits_start: "visits lm max_distance max_b s0 s0"
| visits_next:
    "visits lm max_distance max_b s0 s \<Longrightarrow>
     self_bounces s < max_b \<and> total_distance s < max_distance \<Longrightarrow>
     cast_body lm max_distance s = Inr (seg, Next s') \<Longrightarrow>
     visits lm max_distance max_b s0 s'"

code_pred visits .

text \<open>The DDA loop with a cap on the number of iterations: \<open>None\<close> when the cap is
  reached before the loop has returned.\<close>

fun dda_fuel ::
  "nat \<Rightarrow> LevelMap \<Rightarrow> Vector2 \<Rightarrow> real \<Rightarrow> real \<Rightarrow> real \<Rightarrow> dda_state \<Rightarrow> (error + segment) option" where
  "dda_fuel 0 lm orig ray_cos ray_sin max_distance st = None"
| "dda_fuel (Suc n) lm orig ray_cos ray_sin max_distance st =
     (if distance st < max_distance then
        (case dda_step lm orig ray_cos ray_sin st of
           Inl e \<Rightarrow> Some (Inl e)
         | Inr (Return seg) \<Rightarrow> Some (Inr seg)
         | Inr (Continue st') \<Rightarrow> dda_fuel n lm orig ray_cos ray_sin max_distance st')
      else Some (Inr \<lparr>seg_distance = max_distance, seg_wall_type = 0, seg_hit_mirror = False,
                      seg_mirror_data = None\<rparr>))"

text \<open>The grid lines of the DDA state lie strictly ahead of the origin, in the direction
  of travel on each axis.\<close>

definition ahead :: "Vector2 \<Rightarrow> real \<Rightarrow> real \<Rightarrow> dda_state \<Rightarrow> bool" where
  "ahead orig ray_cos ray_sin st \<longleftrightarrow>
     (if ray_cos > 0 then vx orig < real_of_int (h_x st) else real_of_int (h_x st) < vx orig) \<and>
     (if ray_sin > 0 then vy orig < real_of_int (v_y st) else real_of_int (v_y st) < vy orig)"

section \<open>Example levels\<close>

text \<open>One free cell between two mirror tiles facing each other, a third mirror tile above
  it, as \<^verbatim>\<open>LevelMap([[1,3,1],[3,0,3],[1,1,1]])\<close> followed by three calls of
  \<^verbatim>\<open>add_mirror\<close> builds it.\<close>

definition mirror_room :: LevelMap where
  "mirror_room =
     \<lparr>grid = [[1, 3, 1], [3, 0, 3], [1, 1, 1]], width = 3, height = 3,
      mirrors = [\<lparr>m_x = 2, m_y = 1, orientation = ''vertical''\<rparr>,
                 \<lparr>m_x = 0, m_y = 1, orientation = ''vertical''\<rparr>,
                 \<lparr>m_x = 1, m_y = 0, orientation = ''horizontal''\<rparr>]\<rparr>"

text \<open>A hall of two free cells with a wall of code 2 at its right end, no mirrors.\<close>

definition hall :: LevelMap where
  "hall =
     \<lparr>grid = [[1, 1, 1, 1, 1], [1, 0, 0, 2, 1], [1, 1, 1, 1, 1]], width = 5, height = 3,
      mirrors = []\<rparr>"

text \<open>One free cell with a wall of code 2 above it and walls of code 1 elsewhere.\<close>

definition corner_room :: LevelMap where
  "corner_room =
     \<lparr>grid = [[1, 2, 1], [1, 0, 1], [1, 1, 1]], width = 3, height = 3, mirrors = []\<rparr>"

text \<open>The ray that \<^verbatim>\<open>Ray(Vector2(1.5, 1.5), Vector2(1, 0))\<close> constructs.\<close>

definition ray_east :: Ray where
  "ray_east =
     \<lparr>origin = Vector2 1.5 1.5, direction = Vector2 1 0, bounces = 0, max_bounces = 3\<rparr>"

lemma ray_east_built: "Ray_init (Vector2 1.5 1.5) (Vector2 1 0) = Inr ray_east"
  by (simp add: Ray_init_def normalize_def py_pow2_def py_truediv_def rounds_to_inf_def
      rounds_to_zero_def ray_east_def)

lemma Ray_init_fresh:
  "Ray_init orig dir = Inr ray \<Longrightarrow> origin ray = orig \<and> bounces ray = 0 \<and> max_bounces ray = 3"
  by (auto simp: Ray_init_def split: sum.splits)

lemma mirror_room_built:
  "LevelMap_init [[1, 3, 1], [3, 0, 3], [1, 1, 1]] = Inr lm0 \<Longrightarrow>
   add_mirror (add_mirror (add_mirror lm0 2 1 ''vertical'') 0 1 ''vertical'') 1 0 ''horizontal''
     = mirror_room"
  by (auto simp: LevelMap_init_def py_index_def add_mirror_def mirror_room_def)

lemma hall_built:
  "LevelMap_init [[1, 1, 1, 1, 1], [1, 0, 0, 2, 1], [1, 1, 1, 1, 1]] = Inr hall"
  by (simp add: LevelMap_init_def py_index_def hall_def)

lemma corner_room_built:
  "LevelMap_init [[1, 2, 1], [1, 0, 1], [1, 1, 1]] = Inr corner_room"
  by (simp add: LevelMap_init_def py_index_def corner_room_def)

section \<open>The grid lookup\<close>

text \<open>
  Claim C7. For every integer pair \<open>(x, y)\<close>, \<^verbatim>\<open>get_tile\<close> returns the sentinel wall
  code 1 whenever \<open>x < 0\<close>, \<open>x \<ge> width\<close>, \<open>y < 0\<close> or \<open>y \<ge> height\<close>, and returns the
  stored cell code \<^verbatim>\<open>grid[y][x]\<close> when \<open>0 \<le> x < width\<close> and \<open>0 \<le> y < height\<close>, the grid
  being, as the data model has it, \<open>height\<close> rows of \<open>width\<close> cells each.
\<close>

theorem get_tile_spec:
  "(x < 0 \<or> x \<ge> width lm \<or> y < 0 \<or> y \<ge> height lm \<longrightarrow> get_tile lm x y = Inr 1) \<and>
   (rectangular lm \<and> 0 \<le> x \<and> x < width lm \<and> 0 \<le> y \<and> y < height lm \<longrightarrow>
      get_tile lm x y = Inr (grid lm ! nat y ! nat x))"
proof (intro conjI impI)
  assume "x < 0 \<or> x \<ge> width lm \<or> y < 0 \<or> y \<ge> height lm"
  then show "get_tile lm x y = Inr 1" by (auto simp: get_tile_def)
next
  assume a: "rectangular lm \<and> 0 \<le> x \<and> x < width lm \<and> 0 \<le> y \<and> y < height lm"
  then have y: "nat y < length (grid lm)" by (auto simp: rectangular_def)
  then have "grid lm ! nat y \<in> set (grid lm)" by simp
  with a have "int (length (grid lm ! nat y)) = width lm"
    by (simp add: rectangular_def list_all_iff)
  with a y show "get_tile lm x y = Inr (grid lm ! nat y ! nat x)"
    by (simp add: get_tile_def py_index_def rectangular_def)
qed

theorem get_tile_spec_witness:
  "rectangular mirror_room \<and> get_tile mirror_room 2 1 = Inr 3 \<and>
   get_tile mirror_room (- 1) 1 = Inr 1 \<and> get_tile mirror_room 3 1 = Inr 1 \<and>
   get_tile mirror_room 1 (- 1) = Inr 1 \<and> get_tile mirror_room 1 3 = Inr 1"
  using get_tile_spec [of 2 mirror_room 1] get_tile_spec [of "- 1" mirror_room 1]
    get_tile_spec [of 3 mirror_room 1] get_tile_spec [of 1 mirror_room "- 1"]
    get_tile_spec [of 1 mirror_room 3]
  by (simp add: mirror_room_def rectangular_def)

section \<open>Vector normalisation\<close>























section \<open>Casting with no distance budget\<close>

text \<open>
  Claim C1 asks that \<^verbatim>\<open>cast\<close> with \<^verbatim>\<open>max_distance == 0\<close> return distance 0 and surface
  type 0 without raising. What the code does, for every ray and every level: the loop
  condition \<^verbatim>\<open>total_distance < max_distance\<close> is false at once, no segment is cast, and
  the \<^verbatim>\<open>return\<close> after the loop reads \<^verbatim>\<open>wall_type\<close>, which was never assigned, so the
  call raises \<^verbatim>\<open>UnboundLocalError\<close>.
\<close>

theorem cast_zero_budget_raises:
  "cast ray lm 0 =
     \<lparr>casts = [], final_bounces = bounces ray, returned = Inl UnboundLocalError\<rparr>"
  by (simp add: cast_def cast_start_def cast_loop.simps)

section \<open>Facts about the single-segment caster\<close>

lemma nudge_nonzero: "vx (nudge d) \<noteq> 0 \<and> vy (nudge d) \<noteq> 0"
  by (auto simp: nudge_def)

lemma probe_not_zero_div: "probe lm cx cy d \<noteq> Inl ZeroDivisionError"
  by (auto simp: probe_def py_index_def Let_def split: sum.splits option.splits)

lemma probe_Some_distance: "probe lm cx cy d = Inr (Some seg) \<Longrightarrow> seg_distance seg = d"
  by (auto simp: probe_def split: if_splits sum.splits option.splits)

lemma h_branch_not_zero_div:
  "h_branch lm orig ray_cos ray_sin st hdist \<noteq> Inl ZeroDivisionError"
  by (auto simp: h_branch_def Let_def probe_not_zero_div split: sum.splits option.splits
      split del: if_split)

lemma v_branch_not_zero_div:
  "v_branch lm orig ray_cos ray_sin st vdist \<noteq> Inl ZeroDivisionError"
  by (auto simp: v_branch_def Let_def probe_not_zero_div split: sum.splits option.splits
      split del: if_split)

lemma dda_step_not_zero_div:
  "ray_cos \<noteq> 0 \<Longrightarrow> ray_sin \<noteq> 0 \<Longrightarrow> dda_step lm orig ray_cos ray_sin st \<noteq> Inl ZeroDivisionError"
  using h_branch_not_zero_div v_branch_not_zero_div
  by (simp add: dda_step_def Let_def)

lemma dda_loop_not_zero_div:
  "ray_cos \<noteq> 0 \<Longrightarrow> ray_sin \<noteq> 0 \<Longrightarrow>
   dda_loop lm orig ray_cos ray_sin md st \<noteq> Inl ZeroDivisionError"
proof (induction lm orig ray_cos ray_sin md st rule: dda_loop.induct)
  case (1 lm orig ray_cos ray_sin md st)
  show ?case
  proof (cases "distance st < md")
    case False
    then show ?thesis by (simp add: dda_loop.simps)
  next
    case True
    show ?thesis
    proof (cases "dda_step lm orig ray_cos ray_sin st")
      case (Inl e)
      with dda_step_not_zero_div [OF "1.prems", of lm orig st] True show ?thesis
        by (simp add: dda_loop.simps)
    next
      case (Inr r)
      show ?thesis
      proof (cases r)
        case (Return seg)
        with Inr True show ?thesis by (simp add: dda_loop.simps)
      next
        case (Continue st')
        from "1.IH" [OF True Inr Continue "1.prems"] Inr Continue True show ?thesis
          by (simp add: dda_loop.simps)
      qed
    qed
  qed
qed

lemma dda_step_cases:
  assumes "dda_step lm orig ray_cos ray_sin st = Inr r"
  shows "ray_cos \<noteq> 0 \<and> ray_sin \<noteq> 0 \<and>
    (h_branch lm orig ray_cos ray_sin st ((real_of_int (h_x st) - vx orig) / ray_cos) = Inr r \<or>
     v_branch lm orig ray_cos ray_sin st ((real_of_int (v_y st) - vy orig) / ray_sin) = Inr r)"
  using assms by (auto simp: dda_step_def Let_def split: if_splits)

lemma dda_step_Continue_ahead:
  assumes "dda_step lm orig ray_cos ray_sin st = Inr (Continue st')"
    and "ahead orig ray_cos ray_sin st"
  shows "ahead orig ray_cos ray_sin st'"
proof -
  from dda_step_cases [OF assms(1)] h_branch_Continue v_branch_Continue
  have "st' = \<lparr>h_x = h_x st + h_dx ray_cos, v_y = v_y st,
               distance = \<bar>(real_of_int (h_x st) - vx orig) / ray_cos\<bar>\<rparr> \<or>
        st' = \<lparr>h_x = h_x st, v_y = v_y st + v_dy ray_sin,
               distance = \<bar>(real_of_int (v_y st) - vy orig) / ray_sin\<bar>\<rparr>"
    by blast
  with assms(2) show ?thesis
    by (auto simp: ahead_def h_dx_def v_dy_def split: if_splits)
qed

lemma h_branch_Return:
  assumes "h_branch lm orig ray_cos ray_sin st hdist = Inr (Return seg)"
  shows "seg_distance seg = \<bar>hdist\<bar>"
proof -
  from assms obtain cx cy where "probe lm cx cy \<bar>hdist\<bar> = Inr (Some seg)"
    by (auto simp: h_branch_def Let_def split: sum.splits option.splits)
  then show ?thesis by (rule probe_Some_distance)
qed

lemma v_branch_Return:
  assumes "v_branch lm orig ray_cos ray_sin st vdist = Inr (Return seg)"
  shows "seg_distance seg = \<bar>vdist\<bar>"
proof -
  from assms obtain cx cy where "probe lm cx cy \<bar>vdist\<bar> = Inr (Some seg)"
    by (auto simp: v_branch_def Let_def split: sum.splits option.splits)
  then show ?thesis by (rule probe_Some_distance)
qed

lemma dda_step_Return_pos:
  assumes "dda_step lm orig ray_cos ray_sin st = Inr (Return seg)"
    and "ahead orig ray_cos ray_sin st"
  shows "0 < seg_distance seg"
proof -
  let ?hd = "(real_of_int (h_x st) - vx orig) / ray_cos"
  let ?vd = "(real_of_int (v_y st) - vy orig) / ray_sin"
  from dda_step_cases [OF assms(1)] have nz: "ray_cos \<noteq> 0" "ray_sin \<noteq> 0"
    and d: "seg_distance seg = \<bar>?hd\<bar> \<or> seg_distance seg = \<bar>?vd\<bar>"
    using h_branch_Return v_branch_Return by blast+
  from assms(2) have "real_of_int (h_x st) \<noteq> vx orig" "real_of_int (v_y st) \<noteq> vy orig"
    by (auto simp: ahead_def split: if_splits)
  with nz have p: "0 < \<bar>?hd\<bar>" "0 < \<bar>?vd\<bar>" by simp_all
  with d show ?thesis by auto
qed

lemma dda_loop_pos:
  "ahead orig ray_cos ray_sin st \<Longrightarrow> 0 < md \<Longrightarrow>
   dda_loop lm orig ray_cos ray_sin md st = Inr seg \<Longrightarrow> 0 < seg_distance seg"
proof (induction lm orig ray_cos ray_sin md st rule: dda_loop.induct)
  case (1 lm orig ray_cos ray_sin md st)
  show ?case
  proof (cases "distance st < md")
    case False
    with "1.prems" show ?thesis by (auto simp: dda_loop.simps)
  next
    case True
    show ?thesis
    proof (cases "dda_step lm orig ray_cos ray_sin st")
      case (Inl e)
      with "1.prems" True show ?thesis by (simp add: dda_loop.simps)
    next
      case (Inr r)
      show ?thesis
      proof (cases r)
        case (Return seg')
        with Inr True "1.prems"(3) have "seg' = seg" by (simp add: dda_loop.simps)
        with dda_step_Return_pos [of lm orig ray_cos ray_sin st seg'] Inr Return "1.prems"(1)
        show ?thesis by simp
      next
        case (Continue st')
        from Inr Continue have c: "dda_step lm orig ray_cos ray_sin st = Inr (Continue st')"
          by simp
        from "1.prems"(3) c True have "dda_loop lm orig ray_cos ray_sin md st' = Inr seg"
          by (simp add: dda_loop.simps)
        with "1.IH" [OF True Inr Continue dda_step_Continue_ahead [OF c "1.prems"(1)] "1.prems"(2)]
        show ?thesis by simp
      qed
    qed
  qed
qed

lemma cast_single_pos:
  assumes "0 < md" and "cast_single lm orig dir md = (dir', Inr seg)"
  shows "0 < seg_distance seg"
proof -
  let ?c = "vx (nudge dir)" and ?s = "vy (nudge dir)"
  let ?st = "\<lparr>h_x = (if ?c > 0 then \<lfloor>vx orig\<rfloor> + 1 else \<lceil>vx orig\<rceil> - 1),
             v_y = (if ?s > 0 then \<lfloor>vy orig\<rfloor> + 1 else \<lceil>vy orig\<rceil> - 1), distance = 0\<rparr>"
  have a: "ahead orig ?c ?s ?st"
    unfolding ahead_def by (simp; linarith)
  from assms(2) have "dda_loop lm orig ?c ?s md ?st = Inr seg"
    by (auto simp: cast_single_def Let_def split del: if_split)
  from dda_loop_pos [OF a assms(1) this] show ?thesis .
qed

text \<open>The equations that evaluate a cast on a concrete level.\<close>

lemmas cast_eval = cast_def cast_start_def ray_east_def cast_loop.simps
  cast_body_def cast_single_def nudge_def dda_loop.simps dda_step_def h_branch_def
  v_branch_def probe_def py_index_def py_int_def h_dx_def v_dy_def reflect_def Let_def

section \<open>The direction nudge\<close>

text \<open>
  Claim C4 says that a component of magnitude below \<open>1e-4\<close> is nudged to magnitude
  \<open>1e-4\<close> with its sign kept. The code assigns the positive constant \<^verbatim>\<open>0.0001\<close>
  whatever the sign was: the direction \<open>(-0.00005, 1)\<close> leaves \<^verbatim>\<open>_cast_single\<close> as
  \<open>(0.0001, 1)\<close>, its \<open>x\<close> component no longer negative.
\<close>

theorem nudge_sign_counterexample:
  "vx (fst (cast_single hall (Vector2 1.5 1.5) (Vector2 (- 0.00005) 1) 20)) = 0.0001 \<and>
   \<not> vx (fst (cast_single hall (Vector2 1.5 1.5) (Vector2 (- 0.00005) 1) 20)) < 0"
  by (simp add: cast_single_def nudge_def Let_def)

text \<open>
  Claim C4 as amended. For every direction given to the single-segment caster, each
  component whose magnitude is below \<open>1e-4\<close> is set to \<open>+1e-4\<close> (whatever its sign) and
  every other component is left as it is; both components are then nonzero, and the
  segment cast never raises a division by zero.
\<close>

theorem nudge_to_positive_epsilon:
  "fst (cast_single lm orig dir md) = nudge dir \<and>
   (\<bar>vx dir\<bar> < 0.0001 \<longrightarrow> vx (nudge dir) = 0.0001) \<and>
   (\<bar>vx dir\<bar> \<ge> 0.0001 \<longrightarrow> vx (nudge dir) = vx dir) \<and>
   (\<bar>vy dir\<bar> < 0.0001 \<longrightarrow> vy (nudge dir) = 0.0001) \<and>
   (\<bar>vy dir\<bar> \<ge> 0.0001 \<longrightarrow> vy (nudge dir) = vy dir) \<and>
   vx (nudge dir) \<noteq> 0 \<and> vy (nudge dir) \<noteq> 0 \<and>
   snd (cast_single lm orig dir md) \<noteq> Inl ZeroDivisionError"
proof -
  have a: "fst (cast_single lm orig dir md) = nudge dir"
    by (simp add: cast_single_def Let_def)
  have b: "snd (cast_single lm orig dir md) \<noteq> Inl ZeroDivisionError"
    using nudge_nonzero [of dir] dda_loop_not_zero_div
    by (simp add: cast_single_def Let_def)
  have c: "(\<bar>vx dir\<bar> < 0.0001 \<longrightarrow> vx (nudge dir) = 0.0001) \<and>
   (\<bar>vx dir\<bar> \<ge> 0.0001 \<longrightarrow> vx (nudge dir) = vx dir) \<and>
   (\<bar>vy dir\<bar> < 0.0001 \<longrightarrow> vy (nudge dir) = 0.0001) \<and>
   (\<bar>vy dir\<bar> \<ge> 0.0001 \<longrightarrow> vy (nudge dir) = vy dir)"
    by (simp add: nudge_def)
  from a b c nudge_nonzero [of dir] show ?thesis by blast
qed

theorem nudge_to_positive_epsilon_witness:
  "\<bar>vx (Vector2 (- 0.00005) 1)\<bar> < 0.0001 \<and> \<bar>vy (Vector2 (- 0.00005) 1)\<bar> \<ge> 0.0001 \<and>
   nudge (Vector2 (- 0.00005) 1) = Vector2 0.0001 1 \<and>
   \<bar>vx (Vector2 1 0)\<bar> \<ge> 0.0001 \<and> \<bar>vy (Vector2 1 0)\<bar> < 0.0001 \<and>
   nudge (Vector2 1 0) = Vector2 1 0.0001 \<and>
   snd (cast_single hall (Vector2 1.5 1.5) (Vector2 1 0) 20) \<noteq> Inl ZeroDivisionError"
  using nudge_to_positive_epsilon [of hall "Vector2 1.5 1.5" "Vector2 (- 0.00005) 1" 20]
    nudge_to_positive_epsilon [of hall "Vector2 1.5 1.5" "Vector2 1 0" 20]
  by (simp add: nudge_def)

section \<open>The distance budget\<close>

text \<open>
  Claim C3 says that the returned distance is at most \<^verbatim>\<open>max_distance\<close>. The loop of
  \<^verbatim>\<open>_cast_single\<close> tests \<^verbatim>\<open>distance < max_distance\<close> with the distance of the previous
  crossing, and tests the cell of the next crossing before that crossing's distance is
  compared with the budget. In the hall, from \<open>(1.5, 1.5)\<close> along \<open>(1, 0)\<close> with budget
  \<open>1.2\<close>: the crossing at \<open>0.5\<close> is free, the crossing at \<open>1.5\<close> is the wall of code 2,
  and both \<^verbatim>\<open>_cast_single\<close> and \<^verbatim>\<open>cast\<close> return distance \<open>1.5\<close>, beyond the budget.
\<close>

theorem cast_overshoots_budget:
  "cast_single hall (Vector2 1.5 1.5) (Vector2 1 0) 1.2 =
     (Vector2 1 0.0001,
      Inr \<lparr>seg_distance = 1.5, seg_wall_type = 2, seg_hit_mirror = False,
           seg_mirror_data = None\<rparr>) \<and>
   Ray_init (Vector2 1.5 1.5) (Vector2 1 0) = Inr ray_east \<and>
   returned (cast ray_east hall 1.2) =
     Inr \<lparr>res_distance = 1.5, res_wall_type = 2, res_hit_mirror = False\<rparr> \<and>
   \<not> (1.5 :: real) \<le> 1.2"
  using ray_east_built by (simp add: cast_eval hall_def)

section \<open>Grid-corner ties\<close>





section \<open>Facts about the reflection controller\<close>

lemma cast_body_Next:
  assumes "cast_body lm md s = Inr (seg, Next s')"
  shows "seg_hit_mirror seg \<and> self_bounces s' = self_bounces s + 1 \<and>
         total_distance s' = total_distance s + seg_distance seg \<and>
         wall_type s' = Some (seg_wall_type seg)"
  using assms
  by (auto simp: cast_body_def Let_def split: prod.splits sum.splits bool.splits option.splits)

lemma cast_body_segment:
  assumes "cast_body lm md s = Inr (seg, r)"
  shows "snd (cast_single lm (current_pos s) (current_dir s) (md - total_distance s)) = Inr seg"
  using assms
  by (auto simp: cast_body_def Let_def split: prod.splits sum.splits bool.splits option.splits)

lemma cast_body_Returned:
  assumes "cast_body lm md s = Inr (seg, Returned r)"
  shows "r = \<lparr>res_distance = total_distance s + seg_distance seg,
              res_wall_type = seg_wall_type seg, res_hit_mirror = False\<rparr>"
  using assms
  by (auto simp: cast_body_def Let_def split: prod.splits sum.splits bool.splits option.splits)

lemma cast_body_mirror:
  assumes "cast_single lm (current_pos s) (current_dir s) (md - total_distance s) = (dir', Inr seg)"
    and "seg_hit_mirror seg" and "seg_mirror_data seg = Some m"
  shows "cast_body lm md s =
     Inr (seg, Next
       \<lparr>current_pos = add (current_pos s) (mul dir' (seg_distance seg)),
        current_dir = reflect dir' m,
        total_distance = total_distance s + seg_distance seg,
        self_bounces = self_bounces s + 1,
        wall_type = Some (seg_wall_type seg)\<rparr>)"
  using assms by (simp add: cast_body_def Let_def add_def mul_def)

lemma cast_body_Next_further:
  assumes "total_distance s < md" and "cast_body lm md s = Inr (seg, Next s')"
  shows "total_distance s < total_distance s'"
proof -
  obtain d' where c: "cast_single lm (current_pos s) (current_dir s) (md - total_distance s)
      = (d', Inr seg)"
    using cast_body_segment [OF assms(2)]
    by (cases "cast_single lm (current_pos s) (current_dir s) (md - total_distance s)") auto
  from assms(1) have "0 < md - total_distance s" by simp
  from cast_single_pos [OF this c] cast_body_Next [OF assms(2)] show ?thesis by simp
qed

lemma cast_loop_bounds:
  "self_bounces s \<le> mb \<Longrightarrow>
   length (casts (cast_loop lm md mb s)) \<le> nat (mb - self_bounces s) \<and>
   self_bounces s \<le> final_bounces (cast_loop lm md mb s) \<and>
   final_bounces (cast_loop lm md mb s) \<le> mb"
proof (induction lm md mb s rule: cast_loop.induct)
  case (1 lm md mb s)
  show ?case
  proof (cases "self_bounces s < mb \<and> total_distance s < md")
    case False
    with "1.prems" show ?thesis by (auto simp: cast_loop.simps)
  next
    case True
    show ?thesis
    proof (cases "cast_body lm md s")
      case (Inl e)
      with True "1.prems" show ?thesis by (simp add: cast_loop.simps)
    next
      case (Inr p)
      obtain seg r where p: "p = (seg, r)" by (cases p)
      show ?thesis
      proof (cases r)
        case (Returned res)
        from True have "Suc 0 \<le> nat (mb - self_bounces s)" by linarith
        with Returned Inr p True "1.prems" show ?thesis by (simp add: cast_loop.simps)
      next
        case (Next s')
        from Inr p Next have b: "cast_body lm md s = Inr (seg, Next s')" by simp
        from cast_body_Next [OF b] have sb: "self_bounces s' = self_bounces s + 1" by simp
        with True have le: "self_bounces s' \<le> mb" by simp
        note ih = "1.IH" [OF True Inr p [symmetric] Next le]
        have eq: "cast_loop lm md mb s =
            (cast_loop lm md mb s')\<lparr>casts := seg # casts (cast_loop lm md mb s')\<rparr>"
          using True b by (simp add: cast_loop.simps [of lm md mb s] Let_def)
        from ih sb True
        have "Suc (length (casts (cast_loop lm md mb s'))) \<le> nat (mb - self_bounces s)"
          by linarith
        moreover from ih sb have "self_bounces s \<le> final_bounces (cast_loop lm md mb s')"
          by linarith
        ultimately show ?thesis unfolding eq using ih by simp
      qed
    qed
  qed
qed

lemma cast_loop_length:
  "length (casts (cast_loop lm md mb s)) \<le> nat (mb - self_bounces s)"
proof (cases "self_bounces s \<le> mb")
  case True
  from cast_loop_bounds [OF True] show ?thesis by simp
next
  case False
  then show ?thesis by (simp add: cast_loop.simps)
qed

lemma cast_loop_sum:
  "returned (cast_loop lm md mb s) = Inr r \<Longrightarrow>
   res_distance r = total_distance s + sum_list (map seg_distance (casts (cast_loop lm md mb s)))"
proof (induction lm md mb s rule: cast_loop.induct)
  case (1 lm md mb s)
  show ?case
  proof (cases "self_bounces s < mb \<and> total_distance s < md")
    case False
    with "1.prems" show ?thesis by (auto simp: cast_loop.simps split: option.splits)
  next
    case True
    show ?thesis
    proof (cases "cast_body lm md s")
      case (Inl e)
      with True "1.prems" show ?thesis by (simp add: cast_loop.simps)
    next
      case (Inr p)
      obtain seg r' where p: "p = (seg, r')" by (cases p)
      show ?thesis
      proof (cases r')
        case (Returned res)
        with Inr p have b: "cast_body lm md s = Inr (seg, Returned res)" by simp
        from cast_body_Returned [OF b] b True "1.prems" show ?thesis
          by (auto simp: cast_loop.simps)
      next
        case (Next s')
        from Inr p Next have b: "cast_body lm md s = Inr (seg, Next s')" by simp
        from b True "1.prems" have r: "returned (cast_loop lm md mb s') = Inr r"
          by (simp add: cast_loop.simps [of lm md mb s] Let_def)
        from "1.IH" [OF True Inr p [symmetric] Next r] cast_body_Next [OF b] b True
        show ?thesis
          by (simp add: cast_loop.simps [of lm md mb s] Let_def)
      qed
    qed
  qed
qed

lemma visits_bounces:
  assumes "visits lm md mb s0 s"
  shows "self_bounces s0 \<le> self_bounces s \<and> (self_bounces s0 \<le> mb \<longrightarrow> self_bounces s \<le> mb)"
  using assms
proof (induction rule: visits.induct)
  case (visits_start lm md mb s0)
  show ?case by simp
next
  case (visits_next lm md mb s0 s seg s')
  from cast_body_Next [OF visits_next.hyps(3)] visits_next.hyps(2) visits_next.IH
  show ?case by auto
qed

lemma dda_step_Continue_advance:
  assumes "dda_step lm orig ray_cos ray_sin st = Inr (Continue st')"
  shows "(h_x st' = h_x st + h_dx ray_cos \<and> v_y st' = v_y st) \<or>
         (h_x st' = h_x st \<and> v_y st' = v_y st + v_dy ray_sin)"
proof -
  from dda_step_cases [OF assms] h_branch_Continue v_branch_Continue
  have "st' = \<lparr>h_x = h_x st + h_dx ray_cos, v_y = v_y st,
               distance = \<bar>(real_of_int (h_x st) - vx orig) / ray_cos\<bar>\<rparr> \<or>
        st' = \<lparr>h_x = h_x st, v_y = v_y st + v_dy ray_sin,
               distance = \<bar>(real_of_int (v_y st) - vy orig) / ray_sin\<bar>\<rparr>"
    by blast
  then show ?thesis by auto
qed

lemma dda_fuel_enough:
  "dda_measure lm ray_cos ray_sin st < n \<Longrightarrow>
   dda_fuel n lm orig ray_cos ray_sin md st = Some (dda_loop lm orig ray_cos ray_sin md st)"
proof (induction n arbitrary: st)
  case 0
  then show ?case by simp
next
  case (Suc n)
  show ?case
  proof (cases "distance st < md")
    case False
    then show ?thesis by (simp add: dda_loop.simps)
  next
    case True
    show ?thesis
    proof (cases "dda_step lm orig ray_cos ray_sin st")
      case (Inl e)
      with True show ?thesis by (simp add: dda_loop.simps)
    next
      case (Inr r)
      show ?thesis
      proof (cases r)
        case (Return seg)
        with Inr True show ?thesis by (simp add: dda_loop.simps)
      next
        case (Continue st')
        with Inr have c: "dda_step lm orig ray_cos ray_sin st = Inr (Continue st')" by simp
        from dda_step_decreases [OF c] Suc.prems
        have "dda_measure lm ray_cos ray_sin st' < n" by linarith
        from Suc.IH [OF this] c True show ?thesis
          by (simp add: dda_loop.simps [of lm orig ray_cos ray_sin md st])
      qed
    qed
  qed
qed

lemma first_bounce:
  "cast_body mirror_room 20 (cast_start ray_east) =
     Inr (\<lparr>seg_distance = 0.5, seg_wall_type = 3, seg_hit_mirror = True,
            seg_mirror_data = Some \<lparr>m_x = 2, m_y = 1, orientation = ''vertical''\<rparr>\<rparr>,
          Next \<lparr>current_pos = Vector2 2 1.50005, current_dir = Vector2 (- 1) 0.0001,
                total_distance = 0.5, self_bounces = 1, wall_type = Some 3\<rparr>)"
  by (simp add: cast_eval mirror_room_def)

section \<open>The bounce limit\<close>

text \<open>
  Claim C2 says that a ray meeting more than three mirrors in a row is reflected three
  times and that \<^verbatim>\<open>cast\<close> then returns the result of a fourth segment. In the mirror room
  the ray from \<open>(1.5, 1.5)\<close> along \<open>(1, 0)\<close> bounces between the two facing mirrors: the
  call casts three segments, each a mirror hit, and no fourth. The loop condition
  \<^verbatim>\<open>self.bounces < self.max_bounces\<close> ends the loop as soon as the third reflection has
  been counted, and what is returned is the third segment's tile code with the sum of the
  three distances.
\<close>

theorem three_bounces_counterexample:
  "Ray_init (Vector2 1.5 1.5) (Vector2 1 0) = Inr ray_east \<and>
   cast ray_east mirror_room 20 =
     \<lparr>casts =
        [\<lparr>seg_distance = 0.5, seg_wall_type = 3, seg_hit_mirror = True,
           seg_mirror_data = Some \<lparr>m_x = 2, m_y = 1, orientation = ''vertical''\<rparr>\<rparr>,
         \<lparr>seg_distance = 1, seg_wall_type = 3, seg_hit_mirror = True,
           seg_mirror_data = Some \<lparr>m_x = 0, m_y = 1, orientation = ''vertical''\<rparr>\<rparr>,
         \<lparr>seg_distance = 1, seg_wall_type = 3, seg_hit_mirror = True,
           seg_mirror_data = Some \<lparr>m_x = 2, m_y = 1, orientation = ''vertical''\<rparr>\<rparr>],
      final_bounces = 3,
      returned = Inr \<lparr>res_distance = 2.5, res_wall_type = 3, res_hit_mirror = False\<rparr>\<rparr> \<and>
   length (casts (cast ray_east mirror_room 20)) \<noteq> 4"
  using ray_east_built by (simp add: cast_eval mirror_room_def)

text \<open>
  Claim C2 as amended. An iteration of the controller goes on to a next iteration exactly
  when its segment struck a registered mirror. For every freshly constructed ray whose
  first three segments each strike a mirror, with distance budget left before each of
  them, \<^verbatim>\<open>cast\<close> is over after exactly three reflections and exactly three segments: no
  fourth segment is cast, whatever lies beyond the third mirror and whatever budget is
  left. It returns the sum of the three segment distances and the tile code of the third
  mirror struck, with the mirror flag \<open>False\<close>.
\<close>

theorem three_mirrors_end_cast:
  assumes "Ray_init orig dir = Inr ray"
    and "0 < md"
    and "cast_body lm md (cast_start ray) = Inr (seg1, Next s1)"
    and "total_distance s1 < md"
    and "cast_body lm md s1 = Inr (seg2, Next s2)"
    and "total_distance s2 < md"
    and "cast_body lm md s2 = Inr (seg3, Next s3)"
  shows "cast ray lm md =
           \<lparr>casts = [seg1, seg2, seg3], final_bounces = 3,
            returned =
              Inr \<lparr>res_distance = seg_distance seg1 + seg_distance seg2 + seg_distance seg3,
                   res_wall_type = seg_wall_type seg3, res_hit_mirror = False\<rparr>\<rparr> \<and>
         seg_hit_mirror seg1 \<and> seg_hit_mirror seg2 \<and> seg_hit_mirror seg3"
proof -
  let ?s0 = "cast_start ray"
  from Ray_init_fresh [OF assms(1)] have mb: "max_bounces ray = 3"
    and s0: "self_bounces ?s0 = 0" "total_distance ?s0 = 0"
    by (simp_all add: cast_start_def)
  note n1 = cast_body_Next [OF assms(3)]
  note n2 = cast_body_Next [OF assms(5)]
  note n3 = cast_body_Next [OF assms(7)]
  from n1 n2 n3 s0 have b: "self_bounces s1 = 1" "self_bounces s2 = 2" "self_bounces s3 = 3"
    by simp_all
  from n1 n2 n3 s0 have t: "total_distance s3 =
      seg_distance seg1 + seg_distance seg2 + seg_distance seg3"
    by simp
  have e3: "cast_loop lm md 3 s3 =
      \<lparr>casts = [], final_bounces = 3,
       returned =
         Inr \<lparr>res_distance = seg_distance seg1 + seg_distance seg2 + seg_distance seg3,
              res_wall_type = seg_wall_type seg3, res_hit_mirror = False\<rparr>\<rparr>"
    using b t n3 by (simp add: cast_loop.simps [of lm md 3 s3])
  have e2: "cast_loop lm md 3 s2 =
      (cast_loop lm md 3 s3)\<lparr>casts := seg3 # casts (cast_loop lm md 3 s3)\<rparr>"
    using b assms(6,7) by (simp add: cast_loop.simps [of lm md 3 s2] Let_def)
  have e1: "cast_loop lm md 3 s1 =
      (cast_loop lm md 3 s2)\<lparr>casts := seg2 # casts (cast_loop lm md 3 s2)\<rparr>"
    using b assms(4,5) by (simp add: cast_loop.simps [of lm md 3 s1] Let_def)
  have e0: "cast_loop lm md 3 ?s0 =
      (cast_loop lm md 3 s1)\<lparr>casts := seg1 # casts (cast_loop lm md 3 s1)\<rparr>"
    using s0 assms(2,3) by (simp add: cast_loop.simps [of lm md 3 ?s0] Let_def)
  have "cast ray lm md = cast_loop lm md 3 ?s0" by (simp add: cast_def mb)
  with e0 e1 e2 e3 n1 n2 n3 show ?thesis by simp
qed

theorem three_mirrors_end_cast_witness:
  "Ray_init (Vector2 1.5 1.5) (Vector2 1 0) = Inr ray_east \<and> (0 :: real) < 20 \<and>
   cast_body mirror_room 20 (cast_start ray_east) =
     Inr (\<lparr>seg_distance = 0.5, seg_wall_type = 3, seg_hit_mirror = True,
            seg_mirror_data = Some \<lparr>m_x = 2, m_y = 1, orientation = ''vertical''\<rparr>\<rparr>,
          Next \<lparr>current_pos = Vector2 2 1.50005, current_dir = Vector2 (- 1) 0.0001,
                total_distance = 0.5, self_bounces = 1, wall_type = Some 3\<rparr>) \<and>
   cast_body mirror_room 20
     \<lparr>current_pos = Vector2 2 1.50005, current_dir = Vector2 (- 1) 0.0001,
      total_distance = 0.5, self_bounces = 1, wall_type = Some 3\<rparr> =
     Inr (\<lparr>seg_distance = 1, seg_wall_type = 3, seg_hit_mirror = True,
            seg_mirror_data = Some \<lparr>m_x = 0, m_y = 1, orientation = ''vertical''\<rparr>\<rparr>,
          Next \<lparr>current_pos = Vector2 1 1.50015, current_dir = Vector2 1 0.0001,
                total_distance = 1.5, self_bounces = 2, wall_type = Some 3\<rparr>) \<and>
   cast_body mirror_room 20
     \<lparr>current_pos = Vector2 1 1.50015, current_dir = Vector2 1 0.0001,
      total_distance = 1.5, self_bounces = 2, wall_type = Some 3\<rparr> =
     Inr (\<lparr>seg_distance = 1, seg_wall_type = 3, seg_hit_mirror = True,
            seg_mirror_data = Some \<lparr>m_x = 2, m_y = 1, orientation = ''vertical''\<rparr>\<rparr>,
          Next \<lparr>current_pos = Vector2 2 1.50025, current_dir = Vector2 (- 1) 0.0001,
                total_distance = 2.5, self_bounces = 3, wall_type = Some 3\<rparr>) \<and>
   casts (cast ray_east mirror_room 20) =
     [\<lparr>seg_distance = 0.5, seg_wall_type = 3, seg_hit_mirror = True,
        seg_mirror_data = Some \<lparr>m_x = 2, m_y = 1, orientation = ''vertical''\<rparr>\<rparr>,
      \<lparr>seg_distance = 1, seg_wall_type = 3, seg_hit_mirror = True,
        seg_mirror_data = Some \<lparr>m_x = 0, m_y = 1, orientation = ''vertical''\<rparr>\<rparr>,
      \<lparr>seg_distance = 1, seg_wall_type = 3, seg_hit_mirror = True,
        seg_mirror_data = Some \<lparr>m_x = 2, m_y = 1, orientation = ''vertical''\<rparr>\<rparr>] \<and>
   final_bounces (cast ray_east mirror_room 20) = 3 \<and>
   returned (cast ray_east mirror_room 20) =
     Inr \<lparr>res_distance = 2.5, res_wall_type = 3, res_hit_mirror = False\<rparr>"
proof -
  let ?s1 = "\<lparr>current_pos = Vector2 2 1.50005, current_dir = Vector2 (- 1) 0.0001,
      total_distance = 0.5, self_bounces = 1, wall_type = Some 3\<rparr>"
  let ?s2 = "\<lparr>current_pos = Vector2 1 1.50015, current_dir = Vector2 1 0.0001,
      total_distance = 1.5, self_bounces = 2, wall_type = Some 3\<rparr>"
  let ?s3 = "\<lparr>current_pos = Vector2 2 1.50025, current_dir = Vector2 (- 1) 0.0001,
      total_distance = 2.5, self_bounces = 3, wall_type = Some 3\<rparr>"
  let ?g1 = "\<lparr>seg_distance = 0.5, seg_wall_type = 3, seg_hit_mirror = True,
        seg_mirror_data = Some \<lparr>m_x = 2, m_y = 1, orientation = ''vertical''\<rparr>\<rparr>"
  let ?g2 = "\<lparr>seg_distance = 1, seg_wall_type = 3, seg_hit_mirror = True,
        seg_mirror_data = Some \<lparr>m_x = 0, m_y = 1, orientation = ''vertical''\<rparr>\<rparr>"
  let ?g3 = "\<lparr>seg_distance = 1, seg_wall_type = 3, seg_hit_mirror = True,
        seg_mirror_data = Some \<lparr>m_x = 2, m_y = 1, orientation = ''vertical''\<rparr>\<rparr>"
  have m: "(0 :: real) < 20" by simp
  have b1: "cast_body mirror_room 20 (cast_start ray_east) = Inr (?g1, Next ?s1)"
    by (rule first_bounce)
  have t1: "total_distance ?s1 < 20" by simp
  have b2: "cast_body mirror_room 20 ?s1 = Inr (?g2, Next ?s2)"
    by (simp add: cast_eval mirror_room_def)
  have t2: "total_distance ?s2 < 20" by simp
  have b3: "cast_body mirror_room 20 ?s2 = Inr (?g3, Next ?s3)"
    by (simp add: cast_eval mirror_room_def)
  from three_mirrors_end_cast [OF ray_east_built m b1 t1 b2 t2 b3] ray_east_built b1 b2 b3
  show ?thesis by simp
qed

section \<open>Reflection\<close>

text \<open>
  Claim C5 says that on a mirror hit the controller negates one component of its direction
  and leaves the other unchanged, and advances its origin by its direction times the
  segment's distance. The direction it goes on with is the vector object it handed to
  \<^verbatim>\<open>_cast_single\<close>, which has assigned \<^verbatim>\<open>0.0001\<close> to each component of magnitude below
  \<^verbatim>\<open>0.0001\<close>. In the mirror room the ray from \<open>(1.5, 1.5)\<close> with direction \<open>(1, 0)\<close>
  strikes the vertical mirror at distance \<open>0.5\<close>: the next origin is \<open>(2, 1.50005)\<close>, not
  \<open>(1.5, 1.5) + (1, 0) * 0.5 = (2, 1.5)\<close>, and the next direction is \<open>(-1, 0.0001)\<close>, its
  \<open>y\<close> component no longer the \<open>0\<close> it was.
\<close>

theorem reflection_literal_counterexample:
  "current_pos (cast_start ray_east) = Vector2 1.5 1.5 \<and>
   current_dir (cast_start ray_east) = Vector2 1 0 \<and>
   cast_body mirror_room 20 (cast_start ray_east) =
     Inr (\<lparr>seg_distance = 0.5, seg_wall_type = 3, seg_hit_mirror = True,
            seg_mirror_data = Some \<lparr>m_x = 2, m_y = 1, orientation = ''vertical''\<rparr>\<rparr>,
          Next \<lparr>current_pos = Vector2 2 1.50005, current_dir = Vector2 (- 1) 0.0001,
                total_distance = 0.5, self_bounces = 1, wall_type = Some 3\<rparr>) \<and>
   add (Vector2 1.5 1.5) (mul (Vector2 1 0) 0.5) = Vector2 2 1.5 \<and>
   Vector2 2 1.50005 \<noteq> Vector2 2 1.5 \<and>
   vy (Vector2 (- 1) 0.0001) \<noteq> vy (Vector2 1 0)"
  by (simp add: cast_eval mirror_room_def add_def mul_def)

text \<open>
  Claim C5 as amended. Whenever the segment cast in an iteration of the controller hits a
  registered mirror, the controller goes on with the direction as the segment caster left
  it (each component of magnitude below \<open>1e-4\<close> replaced by \<open>1e-4\<close>; the controller's
  own direction when both components have magnitude at least \<open>1e-4\<close>): it negates exactly
  that direction's \<open>y\<close> component for a mirror of orientation \<^verbatim>\<open>'horizontal'\<close> and exactly
  its \<open>x\<close> component for one of orientation \<^verbatim>\<open>'vertical'\<close>, advances the origin to the
  origin plus that direction times the segment's distance, and counts one more bounce.
  The distance \<^verbatim>\<open>cast\<close> reports is the sum of the distances of all segments it cast.
\<close>

theorem mirror_reflection:
  "(cast_single lm (current_pos s) (current_dir s) (md - total_distance s) = (dir', Inr seg) \<and>
    seg_hit_mirror seg \<and> seg_mirror_data seg = Some m \<longrightarrow>
      dir' = nudge (current_dir s) \<and>
      (\<bar>vx (current_dir s)\<bar> \<ge> 0.0001 \<and> \<bar>vy (current_dir s)\<bar> \<ge> 0.0001 \<longrightarrow>
         dir' = current_dir s) \<and>
      (case cast_body lm md s of
         Inr (seg', Next s') \<Rightarrow>
           seg' = seg \<and>
           current_pos s' = add (current_pos s) (mul dir' (seg_distance seg)) \<and>
           (orientation m = ''horizontal'' \<longrightarrow> current_dir s' = Vector2 (vx dir') (- vy dir')) \<and>
           (orientation m = ''vertical'' \<longrightarrow> current_dir s' = Vector2 (- vx dir') (vy dir')) \<and>
           total_distance s' = total_distance s + seg_distance seg \<and>
           self_bounces s' = self_bounces s + 1
       | _ \<Rightarrow> False)) \<and>
   (returned (cast ray lm md) = Inr r \<longrightarrow>
      res_distance r = sum_list (map seg_distance (casts (cast ray lm md))))"
proof (intro conjI impI)
  assume a: "cast_single lm (current_pos s) (current_dir s) (md - total_distance s)
               = (dir', Inr seg) \<and> seg_hit_mirror seg \<and> seg_mirror_data seg = Some m"
  then show n: "dir' = nudge (current_dir s)"
    by (auto simp: cast_single_def Let_def)
  from a cast_body_mirror [of lm s md dir' seg m]
  show "case cast_body lm md s of
         Inr (seg', Next s') \<Rightarrow>
           seg' = seg \<and>
           current_pos s' = add (current_pos s) (mul dir' (seg_distance seg)) \<and>
           (orientation m = ''horizontal'' \<longrightarrow> current_dir s' = Vector2 (vx dir') (- vy dir')) \<and>
           (orientation m = ''vertical'' \<longrightarrow> current_dir s' = Vector2 (- vx dir') (vy dir')) \<and>
           total_distance s' = total_distance s + seg_distance seg \<and>
           self_bounces s' = self_bounces s + 1
       | _ \<Rightarrow> False"
    by (simp add: reflect_def)
  assume "\<bar>vx (current_dir s)\<bar> \<ge> 0.0001 \<and> \<bar>vy (current_dir s)\<bar> \<ge> 0.0001"
  with n show "dir' = current_dir s" by (cases "current_dir s") (simp add: nudge_def)
next
  assume "returned (cast ray lm md) = Inr r"
  then show "res_distance r = sum_list (map seg_distance (casts (cast ray lm md)))"
    using cast_loop_sum [of lm md "max_bounces ray" "cast_start ray" r]
    by (simp add: cast_def cast_start_def)
qed

theorem mirror_reflection_witness:
  "cast_single mirror_room (Vector2 1.5 1.5) (Vector2 0.6 (- 0.8)) (20 - 0) =
     (Vector2 0.6 (- 0.8),
      Inr \<lparr>seg_distance = 0.625, seg_wall_type = 3, seg_hit_mirror = True,
           seg_mirror_data = Some \<lparr>m_x = 1, m_y = 0, orientation = ''horizontal''\<rparr>\<rparr>) \<and>
   cast_body mirror_room 20
     \<lparr>current_pos = Vector2 1.5 1.5, current_dir = Vector2 0.6 (- 0.8), total_distance = 0,
      self_bounces = 0, wall_type = None\<rparr> =
     Inr (\<lparr>seg_distance = 0.625, seg_wall_type = 3, seg_hit_mirror = True,
            seg_mirror_data = Some \<lparr>m_x = 1, m_y = 0, orientation = ''horizontal''\<rparr>\<rparr>,
          Next \<lparr>current_pos = Vector2 1.875 1, current_dir = Vector2 0.6 0.8,
                total_distance = 0.625, self_bounces = 1, wall_type = Some 3\<rparr>) \<and>
   cast_single mirror_room (Vector2 1.5 1.5) (Vector2 0.8 0.0002) (20 - 0) =
     (Vector2 0.8 0.0002,
      Inr \<lparr>seg_distance = 0.625, seg_wall_type = 3, seg_hit_mirror = True,
           seg_mirror_data = Some \<lparr>m_x = 2, m_y = 1, orientation = ''vertical''\<rparr>\<rparr>) \<and>
   cast_body mirror_room 20
     \<lparr>current_pos = Vector2 1.5 1.5, current_dir = Vector2 0.8 0.0002, total_distance = 0,
      self_bounces = 0, wall_type = None\<rparr> =
     Inr (\<lparr>seg_distance = 0.625, seg_wall_type = 3, seg_hit_mirror = True,
            seg_mirror_data = Some \<lparr>m_x = 2, m_y = 1, orientation = ''vertical''\<rparr>\<rparr>,
          Next \<lparr>current_pos = Vector2 2 1.500125, current_dir = Vector2 (- 0.8) 0.0002,
                total_distance = 0.625, self_bounces = 1, wall_type = Some 3\<rparr>) \<and>
   returned (cast ray_east mirror_room 20) =
     Inr \<lparr>res_distance = 2.5, res_wall_type = 3, res_hit_mirror = False\<rparr> \<and>
   sum_list (map seg_distance
     (casts (cast ray_east mirror_room 20))) = 2.5"
proof -
  let ?sh = "\<lparr>current_pos = Vector2 1.5 1.5, current_dir = Vector2 0.6 (- 0.8),
      total_distance = 0, self_bounces = 0, wall_type = None\<rparr>"
  let ?sv = "\<lparr>current_pos = Vector2 1.5 1.5, current_dir = Vector2 0.8 0.0002,
      total_distance = 0, self_bounces = 0, wall_type = None\<rparr>"
  let ?mh = "\<lparr>m_x = 1, m_y = 0, orientation = ''horizontal''\<rparr>"
  let ?mv = "\<lparr>m_x = 2, m_y = 1, orientation = ''vertical''\<rparr>"
  let ?segh = "\<lparr>seg_distance = 0.625, seg_wall_type = 3, seg_hit_mirror = True,
           seg_mirror_data = Some ?mh\<rparr>"
  let ?segv = "\<lparr>seg_distance = 0.625, seg_wall_type = 3, seg_hit_mirror = True,
           seg_mirror_data = Some ?mv\<rparr>"
  have h: "cast_single mirror_room (Vector2 1.5 1.5) (Vector2 0.6 (- 0.8)) (20 - 0) =
     (Vector2 0.6 (- 0.8), Inr ?segh)"
    by (simp add: cast_eval mirror_room_def)
  have v: "cast_single mirror_room (Vector2 1.5 1.5) (Vector2 0.8 0.0002) (20 - 0) =
     (Vector2 0.8 0.0002, Inr ?segv)"
    by (simp add: cast_eval mirror_room_def)
  have bh: "cast_body mirror_room 20 ?sh =
     Inr (?segh, Next \<lparr>current_pos = Vector2 1.875 1, current_dir = Vector2 0.6 0.8,
                total_distance = 0.625, self_bounces = 1, wall_type = Some 3\<rparr>)"
    by (simp add: cast_eval mirror_room_def)
  have bv: "cast_body mirror_room 20 ?sv =
     Inr (?segv, Next \<lparr>current_pos = Vector2 2 1.500125, current_dir = Vector2 (- 0.8) 0.0002,
                total_distance = 0.625, self_bounces = 1, wall_type = Some 3\<rparr>)"
    by (simp add: cast_eval mirror_room_def)
  have r: "returned (cast ray_east mirror_room 20) =
     Inr \<lparr>res_distance = 2.5, res_wall_type = 3, res_hit_mirror = False\<rparr>"
    by (simp add: cast_eval mirror_room_def)
  from mirror_reflection [of mirror_room ?sh 20 "Vector2 0.6 (- 0.8)" ?segh ?mh
      ray_east
      "\<lparr>res_distance = 2.5, res_wall_type = 3, res_hit_mirror = False\<rparr>"]
    mirror_reflection [of mirror_room ?sv 20 "Vector2 0.8 0.0002" ?segv ?mv]
    h v bh bv r
  show ?thesis by simp
qed

section \<open>Termination\<close>

text \<open>
  Claim C6. Every call of \<^verbatim>\<open>cast\<close> terminates. An iteration of the controller that does
  not return counts one more bounce and strictly shrinks the remaining distance budget,
  and a call casts at most \<^verbatim>\<open>max_bounces - bounces\<close> segments. An iteration of the DDA loop
  that does not return moves exactly one of the two grid lines one cell on, which strictly
  lowers the number of grid lines left ahead inside the grid; with one more iteration
  allowed than that number, the loop has returned, and with the value of the loop as
  defined by its (proved) terminating recursion.
\<close>

theorem cast_terminates:
  "(total_distance s < md \<and> cast_body lm md s = Inr (seg, Next s') \<longrightarrow>
      self_bounces s' = self_bounces s + 1 \<and>
      md - total_distance s' < md - total_distance s) \<and>
   length (casts (cast ray lm md)) \<le> nat (max_bounces ray - bounces ray) \<and>
   (dda_step lm orig ray_cos ray_sin st = Inr (Continue st') \<longrightarrow>
      ((h_x st' = h_x st + h_dx ray_cos \<and> v_y st' = v_y st) \<or>
       (h_x st' = h_x st \<and> v_y st' = v_y st + v_dy ray_sin)) \<and>
      dda_measure lm ray_cos ray_sin st' < dda_measure lm ray_cos ray_sin st) \<and>
   dda_fuel (Suc (dda_measure lm ray_cos ray_sin st)) lm orig ray_cos ray_sin md st =
     Some (dda_loop lm orig ray_cos ray_sin md st)"
proof (intro conjI impI)
  assume a: "total_distance s < md \<and> cast_body lm md s = Inr (seg, Next s')"
  then show "self_bounces s' = self_bounces s + 1" using cast_body_Next by blast
  from a cast_body_Next_further [of s md lm seg s']
  show "md - total_distance s' < md - total_distance s" by simp
next
  show "length (casts (cast ray lm md)) \<le> nat (max_bounces ray - bounces ray)"
    using cast_loop_length [of lm md "max_bounces ray" "cast_start ray"]
    by (simp add: cast_def cast_start_def)
next
  assume "dda_step lm orig ray_cos ray_sin st = Inr (Continue st')"
  then show "(h_x st' = h_x st + h_dx ray_cos \<and> v_y st' = v_y st) \<or>
       (h_x st' = h_x st \<and> v_y st' = v_y st + v_dy ray_sin)"
    by (rule dda_step_Continue_advance)
next
  assume "dda_step lm orig ray_cos ray_sin st = Inr (Continue st')"
  then show "dda_measure lm ray_cos ray_sin st' < dda_measure lm ray_cos ray_sin st"
    by (rule dda_step_decreases)
next
  show "dda_fuel (Suc (dda_measure lm ray_cos ray_sin st)) lm orig ray_cos ray_sin md st =
     Some (dda_loop lm orig ray_cos ray_sin md st)"
    by (rule dda_fuel_enough) simp
qed

theorem cast_terminates_witness:
  "total_distance (cast_start ray_east) < 20 \<and>
   cast_body mirror_room 20 (cast_start ray_east) =
     Inr (\<lparr>seg_distance = 0.5, seg_wall_type = 3, seg_hit_mirror = True,
            seg_mirror_data = Some \<lparr>m_x = 2, m_y = 1, orientation = ''vertical''\<rparr>\<rparr>,
          Next \<lparr>current_pos = Vector2 2 1.50005, current_dir = Vector2 (- 1) 0.0001,
                total_distance = 0.5, self_bounces = 1, wall_type = Some 3\<rparr>) \<and>
   dda_step hall (Vector2 1.5 1.5) 1 0.0001 \<lparr>h_x = 2, v_y = 2, distance = 0\<rparr> =
     Inr (Continue \<lparr>h_x = 3, v_y = 2, distance = 0.5\<rparr>) \<and>
   dda_measure hall 1 0.0001 \<lparr>h_x = 3, v_y = 2, distance = 0.5\<rparr> <
     dda_measure hall 1 0.0001 \<lparr>h_x = 2, v_y = 2, distance = 0\<rparr> \<and>
   dda_fuel 5 hall (Vector2 1.5 1.5) 1 0.0001 20 \<lparr>h_x = 2, v_y = 2, distance = 0\<rparr> =
     Some (Inr \<lparr>seg_distance = 1.5, seg_wall_type = 2, seg_hit_mirror = False,
                seg_mirror_data = None\<rparr>)"
proof -
  have d: "dda_step hall (Vector2 1.5 1.5) 1 0.0001 \<lparr>h_x = 2, v_y = 2, distance = 0\<rparr> =
     Inr (Continue \<lparr>h_x = 3, v_y = 2, distance = 0.5\<rparr>)"
    by (simp add: cast_eval hall_def)
  have m: "Suc (dda_measure hall 1 0.0001 \<lparr>h_x = 2, v_y = 2, distance = 0\<rparr>) = 5"
    by (simp add: dda_measure_def hall_def)
  have l: "dda_loop hall (Vector2 1.5 1.5) 1 0.0001 20 \<lparr>h_x = 2, v_y = 2, distance = 0\<rparr> =
     Inr \<lparr>seg_distance = 1.5, seg_wall_type = 2, seg_hit_mirror = False,
          seg_mirror_data = None\<rparr>"
    by (simp add: cast_eval hall_def)
  have t: "total_distance (cast_start ray_east) < 20"
    by (simp add: cast_start_def)
  from cast_terminates [of "cast_start ray_east" 20 mirror_room
      "\<lparr>seg_distance = 0.5, seg_wall_type = 3, seg_hit_mirror = True,
            seg_mirror_data = Some \<lparr>m_x = 2, m_y = 1, orientation = ''vertical''\<rparr>\<rparr>"
      "\<lparr>current_pos = Vector2 2 1.50005, current_dir = Vector2 (- 1) 0.0001,
                total_distance = 0.5, self_bounces = 1, wall_type = Some 3\<rparr>"]
    cast_terminates [of _ 20 hall _ _ _ "Vector2 1.5 1.5" 1 "0.0001"
      "\<lparr>h_x = 2, v_y = 2, distance = 0\<rparr>" "\<lparr>h_x = 3, v_y = 2, distance = 0.5\<rparr>"]
    first_bounce d t
  show ?thesis unfolding m l by simp
qed

section \<open>The bounce counter\<close>

text \<open>
  Claim C10. A freshly constructed ray (one the constructor returns) has
  \<^verbatim>\<open>bounces = 0\<close> and \<^verbatim>\<open>max_bounces = 3\<close>. In every
  state in which a call of \<^verbatim>\<open>cast\<close> on it tests the loop condition, that is, before and
  after each iteration, \<open>0 \<le> bounces \<le> 3\<close>; the same holds of \<^verbatim>\<open>self.bounces\<close> when the call
  is over; and the call casts at most three segments.
\<close>

theorem bounces_invariant:
  "Ray_init orig dir = Inr ray \<longrightarrow>
     bounces ray = 0 \<and> max_bounces ray = 3 \<and>
     (visits lm md (max_bounces ray) (cast_start ray) s \<longrightarrow>
        0 \<le> self_bounces s \<and> self_bounces s \<le> 3) \<and>
     length (casts (cast ray lm md)) \<le> 3 \<and>
     0 \<le> final_bounces (cast ray lm md) \<and>
     final_bounces (cast ray lm md) \<le> 3"
proof
  assume i: "Ray_init orig dir = Inr ray"
  from Ray_init_fresh [OF i] have r: "bounces ray = 0" "max_bounces ray = 3" by simp_all
  then have s0: "self_bounces (cast_start ray) = 0" by (simp add: cast_start_def)
  have v: "0 \<le> self_bounces s \<and> self_bounces s \<le> 3"
    if "visits lm md (max_bounces ray) (cast_start ray) s"
    using visits_bounces [OF that] r s0 by simp
  have le: "self_bounces (cast_start ray) \<le> 3" using s0 by simp
  from cast_loop_bounds [OF le, of lm md] s0
  have "length (casts (cast ray lm md)) \<le> 3 \<and> 0 \<le> final_bounces (cast ray lm md) \<and>
        final_bounces (cast ray lm md) \<le> 3"
    by (simp add: cast_def r)
  with r v show "bounces ray = 0 \<and> max_bounces ray = 3 \<and>
     (visits lm md (max_bounces ray) (cast_start ray) s \<longrightarrow>
        0 \<le> self_bounces s \<and> self_bounces s \<le> 3) \<and>
     length (casts (cast ray lm md)) \<le> 3 \<and>
     0 \<le> final_bounces (cast ray lm md) \<and>
     final_bounces (cast ray lm md) \<le> 3"
    by blast
qed

theorem bounces_invariant_witness:
  "Ray_init (Vector2 1.5 1.5) (Vector2 1 0) = Inr ray_east \<and>
   visits mirror_room 20 (max_bounces ray_east) (cast_start ray_east)
     \<lparr>current_pos = Vector2 2 1.50005, current_dir = Vector2 (- 1) 0.0001,
      total_distance = 0.5, self_bounces = 1, wall_type = Some 3\<rparr> \<and>
   (0 :: int) \<le> 1 \<and> (1 :: int) \<le> 3 \<and>
   length (casts (cast ray_east mirror_room 20)) \<le> 3"
proof -
  have g: "self_bounces (cast_start ray_east) < max_bounces ray_east \<and>
           total_distance (cast_start ray_east) < 20"
    by (simp add: cast_start_def ray_east_def)
  have v: "visits mirror_room 20 (max_bounces ray_east) (cast_start ray_east)
     \<lparr>current_pos = Vector2 2 1.50005, current_dir = Vector2 (- 1) 0.0001,
      total_distance = 0.5, self_bounces = 1, wall_type = Some 3\<rparr>"
    by (rule visits_next [OF visits_start g first_bounce])
  from bounces_invariant [of "Vector2 1.5 1.5" "Vector2 1 0" ray_east mirror_room 20
      "\<lparr>current_pos = Vector2 2 1.50005, current_dir = Vector2 (- 1) 0.0001,
      total_distance = 0.5, self_bounces = 1, wall_type = Some 3\<rparr>"] v ray_east_built
  show ?thesis by simp
qed

end
